theory Spec2Isabelle
  imports Main
begin

section \<open>A single-upstream caching reverse proxy (package \<open>single\<close>)\<close>

text \<open>
  The embedding follows \<^verbatim>\<open>src/main.go\<close>, package \<^verbatim>\<open>single\<close>. Go's \<^verbatim>\<open>int64\<close> values
  (sizes, byte counts, file offsets) are integers: they count bytes of a file, far
  below \<open>2 ^ 63\<close>, and the wrap-around of an addition at \<open>2 ^ 63\<close> is not written out.
  A byte slice \<^verbatim>\<open>[]byte\<close> is a \<open>string\<close>. A Go \<^verbatim>\<open>error\<close> is a value of the type
  \<open>error\<close>; a \<^verbatim>\<open>nil\<close> error is \<open>None\<close>. A method \<^verbatim>\<open>m\<close> of a type \<^verbatim>\<open>T\<close> is the function
  \<open>T_m\<close>.
\<close>

type_synonym bytes = string

datatype error =
    EOF
  | ErrUnexpectedEOF
  | ErrShortWrite
  | ErrClosed
  | ErrInvalid
  | ENOENT
  | EACCES
  | ENOSPC
  | EEXIST
  | EIO
  | UnsupportedWhence int
  | NegativeSeek int

subsection \<open>The file a tracking writer wraps\<close>

text \<open>
  \<^verbatim>\<open>trackingWriter.wrapped\<close> is the tempfile, open for writing. The model keeps the
  bytes written to it and the two ways the operating system can refuse: the disk holds
  only \<open>room\<close> more bytes (\<open>None\<close>: it never fills), and closing reports an error.
  As \<^verbatim>\<open>os.File.Write\<close> does, a write stores a prefix of the buffer, returns its length
  \<open>n\<close> with \<open>0 \<le> n \<le> len(p)\<close>, and an error exactly when \<open>n < len(p)\<close>.
\<close>

record wfile =
  data :: bytes
  room :: "nat option"
  close_err :: bool

definition file_Write :: "wfile \<Rightarrow> bytes \<Rightarrow> nat \<times> error option \<times> wfile" where
  "file_Write f p =
     (let n = (case room f of None \<Rightarrow> length p | Some k \<Rightarrow> min k (length p))
      in (n,
          (if n < length p then Some ENOSPC else None),
          f\<lparr>data := data f @ take n p, room := map_option (\<lambda>k. k - n) (room f)\<rparr>))"


subsection \<open>Tracking writer\<close>

text \<open>
  \<^verbatim>\<open>type trackingWriter struct { wrapped; size; written; updateWritten; done }\<close>.
  The channel \<^verbatim>\<open>done\<close> is the flag \<open>done_tw\<close> (closed or not). What a reader receives
  from the two channels is a \<open>notice\<close> (see the partial reader); the non-blocking
  sends of \<^verbatim>\<open>update\<close> (here \<open>tw_update\<close>) change nothing in the writer itself.
\<close>

record trackingWriter =
  wrapped_tw :: wfile
  size_tw :: int
  written_tw :: int
  done_tw :: bool

definition newTrackingWriter :: "wfile \<Rightarrow> int \<Rightarrow> trackingWriter" where
  "newTrackingWriter w sz =
     \<lparr>wrapped_tw = w, size_tw = sz, written_tw = 0, done_tw = False\<rparr>"

definition tw_update :: "trackingWriter \<Rightarrow> nat \<Rightarrow> trackingWriter" where
  "tw_update w n = w\<lparr>written_tw := written_tw w + int n\<rparr>"

definition trackingWriter_Write ::
  "trackingWriter \<Rightarrow> bytes \<Rightarrow> (nat \<times> error option) \<times> trackingWriter" where
  "trackingWriter_Write w p =
     (case file_Write (wrapped_tw w) p of
        (n, err, f) \<Rightarrow> ((n, err), tw_update (w\<lparr>wrapped_tw := f\<rparr>) n))"


text \<open>The writer after each call of a sequence of \<^verbatim>\<open>Write\<close> calls, in order.\<close>

fun writes :: "trackingWriter \<Rightarrow> bytes list \<Rightarrow> trackingWriter list" where
  "writes w [] = []"
| "writes w (p # ps) =
     (let w' = snd (trackingWriter_Write w p) in w' # writes w' ps)"

subsection \<open>Partial reader\<close>

text \<open>
  \<^verbatim>\<open>partiallyDownloadedFile.wrapped\<close> is the tempfile, open for reading: an offset, and
  whether it has been closed. The bytes the file holds at the moment of a read are an
  argument of the read, since the downloader appends to the file while readers run.
  \<^verbatim>\<open>os.File.Read\<close> returns \<open>(0, nil)\<close> for an empty buffer, \<open>(0, io.EOF)\<close> at the end of
  the file, and otherwise the bytes it has, at most \<open>len(p)\<close>. \<^verbatim>\<open>os.File.Seek\<close> to an
  absolute non-negative offset succeeds on an open file (also past the end).
\<close>

record rfile =
  offset :: int
  closed :: bool

definition file_Read :: "rfile \<Rightarrow> bytes \<Rightarrow> nat \<Rightarrow> bytes \<times> error option \<times> rfile" where
  "file_Read f c n =
     (if closed f then ([], Some ErrClosed, f)
      else if n = 0 then ([], None, f)
      else if int (length c) \<le> offset f then ([], Some EOF, f)
      else (let bs = take n (drop (nat (offset f)) c)
            in (bs, None, f\<lparr>offset := offset f + int (length bs)\<rparr>)))"

definition file_Seek :: "rfile \<Rightarrow> int \<Rightarrow> int \<times> error option \<times> rfile" where
  "file_Seek f p =
     (if closed f then (0, Some ErrClosed, f)
      else if p < 0 then (0, Some ErrInvalid, f)
      else (p, None, f\<lparr>offset := p\<rparr>))"

record partiallyDownloadedFile =
  wrapped :: rfile
  readyPos :: int
  pos :: int
  seekBeforeRead :: bool

text \<open>
  One \<^verbatim>\<open>select\<close> of the wait loop receives one notice: \<open>Update v\<close> is the value \<open>v\<close>
  received from \<^verbatim>\<open>updateWritten\<close>; \<open>Done v\<close> is the closed channel \<^verbatim>\<open>done\<close>, with \<open>v\<close>
  the writer's \<^verbatim>\<open>written\<close> read right after. The notices a call of \<^verbatim>\<open>Read\<close> meets are
  an argument; when the loop must wait and none is left, the call stays parked.
  Once \<^verbatim>\<open>done\<close> is closed nothing sends on \<^verbatim>\<open>updateWritten\<close> any more (the downloader
  has left \<^verbatim>\<open>io.Copy\<close>), so from then on every \<^verbatim>\<open>select\<close> receives \<open>Done\<close> with the
  final \<^verbatim>\<open>written\<close>.
\<close>

datatype notice = Update int | Done int

fun await :: "int \<Rightarrow> int \<Rightarrow> notice list \<Rightarrow> (int \<times> notice list) option" where
  "await p ready ns =
     (if ready \<le> p then
        (case ns of
           [] \<Rightarrow> None
         | Update v # ns' \<Rightarrow> await p v ns'
         | Done v # ns' \<Rightarrow> Some (v, ns'))
      else Some (ready, ns))"

datatype read_result =
    Return bytes "error option"
  | Panic
  | Parked

text \<open>
  \<^verbatim>\<open>func (r *partiallyDownloadedFile) Read(p []byte) (n int, err error)\<close>. The arguments
  are the writer's \<^verbatim>\<open>size\<close>, the notices, the bytes of the tempfile at the moment of the
  wrapped read, the reader and \<open>len(p)\<close>. The slice expression \<^verbatim>\<open>p[:readyPos-pos]\<close>
  panics when its bound is negative.
\<close>

definition partiallyDownloadedFile_Read ::
  "int \<Rightarrow> notice list \<Rightarrow> bytes \<Rightarrow> partiallyDownloadedFile \<Rightarrow> nat
     \<Rightarrow> read_result \<times> partiallyDownloadedFile \<times> notice list" where
  "partiallyDownloadedFile_Read sz ns c r n =
     (if sz \<le> pos r then (Return [] (Some EOF), r, ns)
      else
        (case await (pos r) (readyPos r) ns of
           None \<Rightarrow> (Parked, r, [])
         | Some (ready, ns') \<Rightarrow>
             (let r1 = r\<lparr>readyPos := ready\<rparr>;
                  sought =
                    (if seekBeforeRead r1 then
                       (case file_Seek (wrapped r1) (pos r1) of
                          (p', Some e, f) \<Rightarrow> Inl (e, r1\<lparr>pos := p', wrapped := f\<rparr>)
                        | (p', None, f) \<Rightarrow>
                            Inr (r1\<lparr>pos := p', wrapped := f, seekBeforeRead := False\<rparr>))
                     else Inr r1)
              in (case sought of
                    Inl (e, r2) \<Rightarrow> (Return [] (Some e), r2, ns')
                  | Inr r2 \<Rightarrow>
                      (let k = (if readyPos r2 - pos r2 < int n
                                then readyPos r2 - pos r2 else int n)
                       in if k < 0 then (Panic, r2, ns')
                          else
                            (case file_Read (wrapped r2) c (nat k) of
                               (bs, err, f) \<Rightarrow>
                                 (Return bs err,
                                  r2\<lparr>wrapped := f, pos := pos r2 + int (length bs)\<rparr>,
                                  ns')))))))"

text \<open>
  \<^verbatim>\<open>func (r *partiallyDownloadedFile) Seek(offset int64, whence int) (int64, error)\<close>,
  with \<^verbatim>\<open>io.SeekStart = 0\<close>, \<^verbatim>\<open>io.SeekCurrent = 1\<close>, \<^verbatim>\<open>io.SeekEnd = 2\<close>. The first
  argument is the writer's \<^verbatim>\<open>size\<close>.
\<close>

definition SeekStart :: int where "SeekStart = 0"
definition SeekCurrent :: int where "SeekCurrent = 1"
definition SeekEnd :: int where "SeekEnd = 2"

definition partiallyDownloadedFile_Seek ::
  "int \<Rightarrow> partiallyDownloadedFile \<Rightarrow> int \<Rightarrow> int
     \<Rightarrow> (int \<times> error option) \<times> partiallyDownloadedFile" where
  "partiallyDownloadedFile_Seek sz r off whence =
     (case (if whence = SeekStart then Some off
            else if whence = SeekCurrent then Some (pos r + off)
            else if whence = SeekEnd then Some (sz + off)
            else None) of
        None \<Rightarrow> ((pos r, Some (UnsupportedWhence whence)), r)
      | Some p \<Rightarrow>
          (if p < 0 then ((pos r, Some (NegativeSeek (pos r))), r)
           else ((p, None), r\<lparr>pos := p, seekBeforeRead := True\<rparr>)))"

definition partiallyDownloadedFile_Close ::
  "partiallyDownloadedFile \<Rightarrow> error option \<times> partiallyDownloadedFile" where
  "partiallyDownloadedFile_Close r =
     ((if closed (wrapped r) then Some ErrClosed else None),
      r\<lparr>wrapped := (wrapped r)\<lparr>closed := True\<rparr>\<rparr>)"

subsection \<open>Header values, headers and the response writer\<close>

text \<open>
  Header values are kept symbolic where the source builds or reads them through the
  standard library: \<open>HTTPDate t\<close> is the time \<open>t\<close> (seconds since the Unix epoch) in
  \<^verbatim>\<open>http.TimeFormat\<close>, \<open>Decimal n\<close> is \<^verbatim>\<open>strconv.FormatInt(n, 10)\<close>, \<open>Sniffed name c\<close> is
  the media type \<^verbatim>\<open>http.ServeContent\<close> derives from a file name and the first bytes of
  the content, and \<open>Text s\<close> is any other text, which does not parse as a date. So
  \<^verbatim>\<open>t.Format(http.TimeFormat)\<close> is \<open>time_Format t\<close> and \<^verbatim>\<open>time.Parse(http.TimeFormat, v)\<close>
  is \<open>time_Parse v\<close>. A header (\<^verbatim>\<open>http.Header\<close>, a \<^verbatim>\<open>map[string][]string\<close>) is a map
  from names to lists of values.
\<close>

datatype hval = Text string | HTTPDate int | Decimal int | Sniffed string bytes

type_synonym header = "string \<rightharpoonup> hval list"

definition time_Format :: "int \<Rightarrow> hval" where
  "time_Format t = HTTPDate t"

definition time_Parse :: "hval \<Rightarrow> int option" where
  "time_Parse v = (case v of HTTPDate t \<Rightarrow> Some t | _ \<Rightarrow> None)"

text \<open>Go's zero \<^verbatim>\<open>time.Time\<close> (1 January of year 1, UTC) in seconds since the epoch.\<close>

definition zeroTime :: int where
  "zeroTime = - 62135596800"

definition Header_Get :: "header \<Rightarrow> string \<Rightarrow> hval" where
  "Header_Get h k = (case h k of Some (v # vs) \<Rightarrow> v | _ \<Rightarrow> Text [])"

definition Header_Set :: "header \<Rightarrow> string \<Rightarrow> hval \<Rightarrow> header" where
  "Header_Set h k v = h(k \<mapsto> [v])"

text \<open>
  \<^verbatim>\<open>http.ResponseWriter\<close>, as \<^verbatim>\<open>net/http\<close> documents it: the first \<^verbatim>\<open>WriteHeader\<close> sends
  the status line with the header as it stands (\<open>sent\<close>); a later \<^verbatim>\<open>WriteHeader\<close> is
  superfluous and changes nothing; a \<^verbatim>\<open>Write\<close> before any \<^verbatim>\<open>WriteHeader\<close> first calls
  \<^verbatim>\<open>WriteHeader(http.StatusOK)\<close>. \<open>body\<close> collects the bytes handed to \<^verbatim>\<open>Write\<close>. What
  the server adds by itself (\<^verbatim>\<open>Date\<close>, a sniffed \<^verbatim>\<open>Content-Type\<close>, framing) is not part
  of the handler and not modelled.
\<close>

record responseWriter =
  hdr :: header
  wroteHeader :: bool
  status :: int
  sent :: header
  body :: bytes

definition newResponseWriter :: responseWriter where
  "newResponseWriter =
     \<lparr>hdr = Map.empty, wroteHeader = False, status = 0, sent = Map.empty, body = []\<rparr>"

definition WriteHeader :: "responseWriter \<Rightarrow> int \<Rightarrow> responseWriter" where
  "WriteHeader w code =
     (if wroteHeader w then w
      else w\<lparr>wroteHeader := True, status := code, sent := hdr w\<rparr>)"

definition Write :: "responseWriter \<Rightarrow> bytes \<Rightarrow> responseWriter" where
  "Write w bs =
     (let w1 = (if wroteHeader w then w else WriteHeader w 200)
      in w1\<lparr>body := body w1 @ bs\<rparr>)"

definition Fprintln :: "responseWriter \<Rightarrow> string \<Rightarrow> responseWriter" where
  "Fprintln w s = Write w (s @ [CHR 0x0A])"

definition Header_set_w :: "responseWriter \<Rightarrow> string \<Rightarrow> hval \<Rightarrow> responseWriter" where
  "Header_set_w w k v = w\<lparr>hdr := Header_Set (hdr w) k v\<rparr>"

definition StatusMethodNotAllowed :: int where "StatusMethodNotAllowed = 405"
definition StatusNotModified :: int where "StatusNotModified = 304"
definition StatusOK :: int where "StatusOK = 200"
definition StatusInternalServerError :: int where "StatusInternalServerError = 500"
definition StatusBadGateway :: int where "StatusBadGateway = 502"

text \<open>\<^verbatim>\<open>http.StatusText\<close>, for the codes the handler passes to it.\<close>

definition StatusText :: "int \<Rightarrow> string" where
  "StatusText code =
     (if code = 500 then ''Internal Server Error''
      else if code = 502 then ''Bad Gateway''
      else [])"

text \<open>\<^verbatim>\<open>http.Error\<close> sets two headers, writes the status and prints the message.\<close>

definition http_Error :: "responseWriter \<Rightarrow> string \<Rightarrow> int \<Rightarrow> responseWriter" where
  "http_Error w msg code =
     Fprintln
       (WriteHeader
          (Header_set_w
             (Header_set_w w ''Content-Type'' (Text ''text/plain; charset=utf-8''))
             ''X-Content-Type-Options'' (Text ''nosniff''))
          code)
       msg"

definition statusError :: "responseWriter \<Rightarrow> int \<Rightarrow> responseWriter" where
  "statusError w code = http_Error w (StatusText code) code"

subsection \<open>Paths (package \<^verbatim>\<open>path\<close>)\<close>

fun split_slash :: "string \<Rightarrow> string list" where
  "split_slash [] = [[]]"
| "split_slash (c # cs) =
     (if c = CHR ''/'' then [] # split_slash cs
      else (case split_slash cs of
              [] \<Rightarrow> [[c]]
            | e # es \<Rightarrow> (c # e) # es))"

fun join_slash :: "string list \<Rightarrow> string" where
  "join_slash [] = []"
| "join_slash [e] = e"
| "join_slash (e # es) = e @ ''/'' @ join_slash es"

definition rooted :: "string \<Rightarrow> bool" where
  "rooted p = (case p of [] \<Rightarrow> False | c # cs \<Rightarrow> c = CHR ''/'')"

text \<open>
  One element of the path against the elements kept so far (last first): \<^verbatim>\<open>..\<close>
  removes the element before it, stays when there is none to remove in a relative
  path, and is dropped at the root.
\<close>

definition clean_step :: "bool \<Rightarrow> string list \<Rightarrow> string \<Rightarrow> string list" where
  "clean_step rt st e =
     (if e = ''..'' then
        (case st of
           [] \<Rightarrow> (if rt then [] else [''..''])
         | t # ts \<Rightarrow> (if t = ''..'' then e # st else ts))
      else e # st)"

definition path_Clean :: "string \<Rightarrow> string" where
  "path_Clean p =
     (let es = filter (\<lambda>e. e \<noteq> [] \<and> e \<noteq> ''.'') (split_slash p);
          st = rev (foldl (clean_step (rooted p)) [] es)
      in if rooted p then ''/'' @ join_slash st
         else if st = [] then ''.''
         else join_slash st)"

definition path_Join :: "string list \<Rightarrow> string" where
  "path_Join es =
     (let ne = filter (\<lambda>e. e \<noteq> []) es
      in if ne = [] then [] else path_Clean (join_slash ne))"

definition path_Split :: "string \<Rightarrow> string \<times> string" where
  "path_Split p =
     (rev (dropWhile (\<lambda>c. c \<noteq> CHR ''/'') (rev p)),
      rev (takeWhile (\<lambda>c. c \<noteq> CHR ''/'') (rev p)))"

definition path_Dir :: "string \<Rightarrow> string" where
  "path_Dir p = path_Clean (fst (path_Split p))"

definition path_Base :: "string \<Rightarrow> string" where
  "path_Base p =
     (if p = [] then ''.''
      else (let q = rev (dropWhile (\<lambda>c. c = CHR ''/'') (rev p))
            in if q = [] then ''/'' else snd (path_Split q)))"

subsection \<open>The file system and the operating system's answers\<close>

text \<open>
  The cache directory holds regular files: content, modification time (seconds since
  the epoch) and whether the process may open the file for reading. \<^verbatim>\<open>os.Open\<close> fails
  with \<open>ENOENT\<close> for a missing file (also for the empty name) and with \<open>EACCES\<close> for
  one it may not read. The other calls fail when the environment says so: \<open>osenv\<close>
  lists, for each call of the source whose error the source tests, whether it fails,
  and holds the clock and the random names \<^verbatim>\<open>ioutil.TempFile\<close> tries in turn.
\<close>

record diskfile =
  content :: bytes
  mtime :: int
  readable :: bool

type_synonym fs = "string \<rightharpoonup> diskfile"

record osenv =
  url_fails :: "string \<Rightarrow> bool"
  stat_fails :: bool
  mkdir_fails :: bool
  tempfile_fails :: bool
  chtimes_fails :: bool
  rename_fails :: bool
  remove_fails :: bool
  close_fails :: bool
  disk_room :: "nat option"
  now :: int
  rands :: "string list"

definition os_Open :: "fs \<Rightarrow> string \<Rightarrow> error + diskfile" where
  "os_Open fs p =
     (if p = [] then Inl ENOENT
      else (case fs p of
              None \<Rightarrow> Inl ENOENT
            | Some f \<Rightarrow> (if readable f then Inr f else Inl EACCES)))"

definition os_IsNotExist :: "error \<Rightarrow> bool" where
  "os_IsNotExist e = (e = ENOENT)"




text \<open>
  \<^verbatim>\<open>ioutil.TempFile(dir, prefix + "*")\<close>: the first random name whose file does not
  exist yet is created empty, readable, with the current time.
\<close>

definition ioutil_TempFile :: "osenv \<Rightarrow> fs \<Rightarrow> string \<Rightarrow> string \<Rightarrow> error + (string \<times> fs)" where
  "ioutil_TempFile env fs dir prefix =
     (if tempfile_fails env then Inl EACCES
      else (case find (\<lambda>n. fs n = None)
                   (map (\<lambda>x. path_Join [dir, prefix @ x]) (rands env)) of
              None \<Rightarrow> Inl EEXIST
            | Some name \<Rightarrow>
                Inr (name, fs(name \<mapsto> \<lparr>content = [], mtime = now env, readable = True\<rparr>))))"

subsection \<open>Requests, responses and bodies\<close>

text \<open>
  \<^verbatim>\<open>http.Request\<close>: the inbound request \<^verbatim>\<open>r\<close> (\<open>URL\<close> is \<^verbatim>\<open>r.URL.Path\<close>) and the request
  the handler sends upstream (\<open>URL\<close> is the whole address). An upstream body is the
  chunks its successive reads return, ending in \<^verbatim>\<open>io.EOF\<close> or, when \<open>fails\<close>, in an
  error. \<^verbatim>\<open>http.Response\<close> has the fields the handler reads; \<open>ContentLength\<close> is \<open>-1\<close>
  when the length is unknown.
\<close>

record Request =
  Method :: string
  URL :: string
  ReqHeader :: header

record body_stream =
  chunks :: "bytes list"
  fails :: bool

record Response =
  StatusCode :: int
  Header :: header
  ContentLength :: int
  Body :: body_stream


subsection \<open>Object handles and the registry\<close>

text \<open>
  \<^verbatim>\<open>type objectHandle struct { proxy; cleanPath; once; tempPath; trackingWriter }\<close>.
  \<open>once\<close> tells whether \<^verbatim>\<open>h.once.Do\<close> has run; \<open>trackingWriter\<close> is the pointer's target
  as \<^verbatim>\<open>newTrackingWriter\<close> made it, or \<open>None\<close> for \<^verbatim>\<open>nil\<close>. The registry
  \<^verbatim>\<open>objectHandles sync.Map\<close> is a map from clean paths to handles.
\<close>

record objectHandle =
  cleanPath :: string
  once :: bool
  tempPath :: string
  trackingWriter :: "trackingWriter option"

type_synonym registry = "string \<rightharpoonup> objectHandle"

definition newObjectHandle :: "string \<Rightarrow> objectHandle" where
  "newObjectHandle cp = \<lparr>cleanPath = cp, once = False, tempPath = [], trackingWriter = None\<rparr>"

text \<open>
  \<^verbatim>\<open>ReadSeekCloser\<close>, as the handler meets it: a \<^verbatim>\<open>nil\<close> \<^verbatim>\<open>*os.File\<close>, an \<^verbatim>\<open>*os.File\<close> on a
  complete file (its content), or a partial reader with its writer.
\<close>

datatype ReadSeekCloser =
    NilFile
  | OSFile bytes
  | Partial partiallyDownloadedFile "trackingWriter option"

text \<open>
  The goroutine \<^verbatim>\<open>objectHandle.Get\<close> starts, as the values its closure captured. It
  runs after \<^verbatim>\<open>Get\<close> has returned, see \<open>downloader\<close>.
\<close>

record download =
  d_body :: body_stream
  d_cleanPath :: string
  d_tempPath :: string
  d_writer :: trackingWriter
  d_modTime :: int
  d_cachePath :: string

text \<open>
  The function given to \<^verbatim>\<open>h.once.Do\<close> (lines 185 to 230): it returns the handle, the
  file system, the value left in \<^verbatim>\<open>err\<close> and the goroutine started, if any.
\<close>

definition once_Do ::
  "osenv \<Rightarrow> fs \<Rightarrow> objectHandle \<Rightarrow> body_stream \<Rightarrow> int \<Rightarrow> int \<Rightarrow> string
     \<Rightarrow> objectHandle \<times> fs \<times> error option \<times> download option" where
  "once_Do env fs h bd modTime sz cachePath =
     (if once h then (h, fs, None, None)
      else if mkdir_fails env then (h\<lparr>once := True\<rparr>, fs, Some EACCES, None)
      else
        (case ioutil_TempFile env fs (path_Dir cachePath) (path_Base cachePath @ ''.part.'') of
           Inl e \<Rightarrow> (h\<lparr>once := True\<rparr>, fs, Some e, None)
         | Inr (name, fs') \<Rightarrow>
             (let w = newTrackingWriter
                        \<lparr>data = [], room = disk_room env, close_err = close_fails env\<rparr> sz
              in (h\<lparr>once := True, tempPath := name, trackingWriter := Some w\<rparr>,
                  fs',
                  None,
                  Some \<lparr>d_body = bd, d_cleanPath = cleanPath h, d_tempPath = name,
                        d_writer = w, d_modTime = modTime, d_cachePath = cachePath\<rparr>))))"

record got =
  reader :: "error + ReadSeekCloser"
  handle :: objectHandle
  files_got :: fs
  closedBody :: bool
  spawned :: "download option"

text \<open>
  \<^verbatim>\<open>func (h *objectHandle) Get(body, modTime, size, cachePath) (ReadSeekCloser, error)\<close>.
  The value \<^verbatim>\<open>h.once.Do\<close> leaves in \<^verbatim>\<open>err\<close> is overwritten by
  \<^verbatim>\<open>rfile, err = os.Open(h.tempPath)\<close>, so it takes no part in the result. The deferred
  function closes the body unless the goroutine took it over.
\<close>

definition objectHandle_Get ::
  "osenv \<Rightarrow> fs \<Rightarrow> objectHandle \<Rightarrow> body_stream \<Rightarrow> int \<Rightarrow> int \<Rightarrow> string \<Rightarrow> got" where
  "objectHandle_Get env fs h bd modTime sz cachePath =
     (case once_Do env fs h bd modTime sz cachePath of
        (h1, fs1, err, task) \<Rightarrow>
          \<lparr>reader =
             (case os_Open fs1 (tempPath h1) of
                Inr f \<Rightarrow>
                  Inr (Partial
                         \<lparr>wrapped = \<lparr>offset = 0, closed = False\<rparr>, readyPos = 0, pos = 0,
                          seekBeforeRead = False\<rparr>
                         (trackingWriter h1))
              | Inl e \<Rightarrow>
                  (if os_IsNotExist e then
                     (case os_Open fs1 cachePath of
                        Inr f \<Rightarrow> Inr (OSFile (content f))
                      | Inl e' \<Rightarrow> Inl e')
                   else Inl e)),
           handle = h1,
           files_got = fs1,
           closedBody = (case task of None \<Rightarrow> True | Some d \<Rightarrow> False),
           spawned = task\<rparr>)"



subsection \<open>\<^verbatim>\<open>http.ServeContent\<close>\<close>




subsection \<open>The handler\<close>

text \<open>
  \<^verbatim>\<open>type CachingReverseProxy struct { client; upstreamPrefix; cacheDir; objectHandles }\<close>.
  \<open>client\<close> is what \<^verbatim>\<open>p.client.Do\<close> answers to a request: a response, or \<open>None\<close> for a
  transport error.
\<close>

record CachingReverseProxy =
  client :: "Request \<Rightarrow> Response option"
  upstreamPrefix :: string
  cacheDir :: string
  objectHandles :: registry

text \<open>
  What one call of \<^verbatim>\<open>ServeHTTP\<close> did. \<open>reply\<close> is the response writer as the handler
  left it (\<open>Direct\<close>), or the call of \<^verbatim>\<open>http.ServeContent\<close> the handler ended with, by its
  arguments, or a panic. \<open>probe\<close> is the path the cache probe opened, \<open>asked\<close> the
  request sent upstream, \<open>bodyClosed\<close> whether the handler closed the upstream body,
  \<open>started\<close> the goroutine started; \<open>handles\<close> and \<open>files\<close> are the registry and the
  file system afterwards.
\<close>

datatype served =
    Direct responseWriter
  | ServeContent responseWriter string int ReadSeekCloser
  | Crashed

record outcome =
  reply :: served
  probe :: "string option"
  asked :: "Request option"
  bodyClosed :: bool
  started :: "download option"
  handles :: registry
  files :: fs

text \<open>Lines 109 to 120: the parsed \<^verbatim>\<open>Last-Modified\<close> and \<^verbatim>\<open>hasAcceptRangeBytes\<close>.\<close>

definition modTimeErr :: "Response \<Rightarrow> bool" where
  "modTimeErr resp = (time_Parse (Header_Get (Header resp) ''Last-Modified'') = None)"

definition upstreamLastModified :: "Response \<Rightarrow> int" where
  "upstreamLastModified resp =
     (case time_Parse (Header_Get (Header resp) ''Last-Modified'') of
        None \<Rightarrow> zeroTime
      | Some t \<Rightarrow> t)"

definition hasAcceptRangeBytes :: "Response \<Rightarrow> bool" where
  "hasAcceptRangeBytes resp =
     (case Header resp ''Accept-Ranges'' of
        None \<Rightarrow> False
      | Some vs \<Rightarrow> Text ''bytes'' \<in> set vs)"

text \<open>The condition of line 125.\<close>

definition cachable :: "Request \<Rightarrow> Response \<Rightarrow> bool" where
  "cachable r resp =
     (Method r = ''GET'' \<and> StatusCode resp = StatusOK \<and> hasAcceptRangeBytes resp
      \<and> ContentLength resp \<noteq> - 1 \<and> \<not> modTimeErr resp)"

text \<open>Lines 144 to 164: the response is passed through.\<close>

definition pass_through :: "responseWriter \<Rightarrow> Request \<Rightarrow> Response \<Rightarrow> responseWriter \<times> bool" where
  "pass_through w r resp =
     (let w1 = (if ContentLength resp \<noteq> - 1
                then Header_set_w w ''Content-Length'' (Decimal (ContentLength resp))
                else w);
          w2 = (if \<not> modTimeErr resp
                then Header_set_w w1 ''Last-Modified'' (Header_Get (Header resp) ''Last-Modified'')
                else w1);
          w3 = (case Header resp ''Content-Type'' of
                  None \<Rightarrow> w2
                | Some contentType \<Rightarrow> w2\<lparr>hdr := (hdr w2)(''Content-Type'' \<mapsto> contentType)\<rparr>);
          w4 = (if hasAcceptRangeBytes resp
                then Header_set_w w3 ''Accept-Ranges'' (Text ''bytes'')
                else w3);
          w5 = WriteHeader w4 (StatusCode resp)
      in if Method r = ''GET''
         then (foldl Write w5 (filter (\<lambda>c. c \<noteq> []) (chunks (Body resp))), True)
         else (w5, False))"

text \<open>The header lines 145 to 156 build on an empty header.\<close>

definition forwarded :: "Response \<Rightarrow> header" where
  "forwarded resp =
     (let h1 = (if ContentLength resp \<noteq> - 1
                then Header_Set Map.empty ''Content-Length'' (Decimal (ContentLength resp))
                else Map.empty);
          h2 = (if \<not> modTimeErr resp
                then Header_Set h1 ''Last-Modified'' (Header_Get (Header resp) ''Last-Modified'')
                else h1);
          h3 = (case Header resp ''Content-Type'' of
                  None \<Rightarrow> h2
                | Some contentType \<Rightarrow> h2(''Content-Type'' \<mapsto> contentType))
      in if hasAcceptRangeBytes resp then Header_Set h3 ''Accept-Ranges'' (Text ''bytes'')
         else h3)"

text \<open>Lines 126 to 141: the response is served through the cache.\<close>

definition cache_through ::
  "osenv \<Rightarrow> fs \<Rightarrow> CachingReverseProxy \<Rightarrow> responseWriter \<Rightarrow> string \<Rightarrow> string \<Rightarrow> Response
     \<Rightarrow> served \<times> got \<times> registry" where
  "cache_through env fs p w clean cachePath resp =
     (let (h, reg) = (case objectHandles p clean of
                        Some h \<Rightarrow> (h, objectHandles p)
                      | None \<Rightarrow> (newObjectHandle clean,
                                  (objectHandles p)(clean \<mapsto> newObjectHandle clean)));
          g = objectHandle_Get env fs h (Body resp) (upstreamLastModified resp)
                (ContentLength resp) cachePath
      in ((case reader g of
             Inl err \<Rightarrow> Direct (statusError w StatusInternalServerError)
           | Inr rd \<Rightarrow>
               ServeContent w (path_Base clean) (upstreamLastModified resp) rd),
          g,
          reg(clean \<mapsto> handle g)))"

text \<open>
  Lines 96 to 165: the upstream request is sent and the answer is served. The arguments
  after the paths are \<^verbatim>\<open>cacheFile\<close> (\<open>None\<close> for \<^verbatim>\<open>nil\<close>), \<^verbatim>\<open>cacheModTime\<close> and
  \<^verbatim>\<open>upstreamReq\<close>.
\<close>

definition upstream ::
  "osenv \<Rightarrow> fs \<Rightarrow> CachingReverseProxy \<Rightarrow> responseWriter \<Rightarrow> Request \<Rightarrow> string \<Rightarrow> string
     \<Rightarrow> diskfile option \<Rightarrow> int \<Rightarrow> Request \<Rightarrow> outcome" where
  "upstream env fs p w r clean cachePath cacheFile cacheModTime upstreamReq =
     (case client p upstreamReq of
        None \<Rightarrow>
          \<lparr>reply = Direct (statusError w StatusBadGateway), probe = Some cachePath,
           asked = Some upstreamReq, bodyClosed = False, started = None,
           handles = objectHandles p, files = fs\<rparr>
      | Some upstreamResp \<Rightarrow>
          (if StatusCode upstreamResp = StatusNotModified then
             \<lparr>reply = ServeContent w (path_Base cachePath) cacheModTime
                        (case cacheFile of None \<Rightarrow> NilFile | Some f \<Rightarrow> OSFile (content f)),
              probe = Some cachePath, asked = Some upstreamReq, bodyClosed = False,
              started = None, handles = objectHandles p, files = fs\<rparr>
           else if cachable r upstreamResp then
             (case cache_through env fs p w clean cachePath upstreamResp of
                (rep, g, reg) \<Rightarrow>
                  \<lparr>reply = rep, probe = Some cachePath, asked = Some upstreamReq,
                   bodyClosed = closedBody g, started = spawned g, handles = reg,
                   files = files_got g\<rparr>)
           else
             (case pass_through w r upstreamResp of
                (w', cl) \<Rightarrow>
                  \<lparr>reply = Direct w', probe = Some cachePath, asked = Some upstreamReq,
                   bodyClosed = cl, started = None, handles = objectHandles p,
                   files = fs\<rparr>)))"

text \<open>\<^verbatim>\<open>func (p *CachingReverseProxy) ServeHTTP(w http.ResponseWriter, r *http.Request)\<close>.\<close>

definition ServeHTTP ::
  "osenv \<Rightarrow> fs \<Rightarrow> CachingReverseProxy \<Rightarrow> responseWriter \<Rightarrow> Request \<Rightarrow> outcome" where
  "ServeHTTP env fs p w r =
     (if Method r \<noteq> ''HEAD'' \<and> Method r \<noteq> ''GET'' then
        \<lparr>reply = Direct (WriteHeader (Fprintln w ''Only HEAD or GET allowed'')
                           StatusMethodNotAllowed),
         probe = None, asked = None, bodyClosed = False, started = None,
         handles = objectHandles p, files = fs\<rparr>
      else
        (let clean = path_Clean (''/'' @ URL r);
             cachePath = path_Join [cacheDir p, clean];
             url = upstreamPrefix p @ clean
         in if url_fails env url then
              \<lparr>reply = Crashed, probe = None, asked = None, bodyClosed = False,
               started = None, handles = objectHandles p, files = fs\<rparr>
            else
              (case os_Open fs cachePath of
                 Inr f \<Rightarrow>
                   (if stat_fails env then
                      \<lparr>reply = Crashed, probe = Some cachePath, asked = None,
                       bodyClosed = False, started = None, handles = objectHandles p,
                       files = fs\<rparr>
                    else
                      upstream env fs p w r clean cachePath (Some f) (mtime f)
                        \<lparr>Method = Method r, URL = url,
                         ReqHeader = Header_Set Map.empty ''If-Modified-Since''
                                       (time_Format (mtime f))\<rparr>)
               | Inl err \<Rightarrow>
                   upstream env fs p w r clean cachePath None zeroTime
                     \<lparr>Method = Method r, URL = url, ReqHeader = Map.empty\<rparr>)))"


definition replied :: "served \<Rightarrow> (int \<times> bytes) option" where
  "replied s = (case s of Direct w \<Rightarrow> Some (status w, body w) | _ \<Rightarrow> None)"

subsection \<open>Concrete scenarios\<close>

text \<open>
  The inputs the closed theorems below are evaluated at: an empty tempfile on a disk
  that never fills, a fresh partial reader, an environment in which no call fails, and
  scenario S1 of the specification: \<^verbatim>\<open>/x/y.pkg\<close>, ten bytes, last modified on
  21 October 2015 at 07:28:00 GMT (\<open>1445412480\<close>), served with \<^verbatim>\<open>Accept-Ranges: bytes\<close>.
\<close>

definition tempfile0 :: wfile where
  "tempfile0 = \<lparr>data = [], room = None, close_err = False\<rparr>"

definition reader0 :: partiallyDownloadedFile where
  "reader0 = \<lparr>wrapped = \<lparr>offset = 0, closed = False\<rparr>, readyPos = 0, pos = 0,
     seekBeforeRead = False\<rparr>"

text \<open>
  The proxy \<open>mirror\<close> has an upstream that answers \<^verbatim>\<open>/missing\<close> with 404, any request
  carrying \<^verbatim>\<open>If-Modified-Since\<close> with 304, and any other request with the package.
  \<open>cached rd\<close> is a cache directory holding the package, readable or not. \<open>pkg_get\<close> is
  the call of \<^verbatim>\<open>Get\<close> the first request for the package makes, \<open>pkg_download\<close> the
  goroutine it starts.
\<close>

definition quiet :: osenv where
  "quiet = \<lparr>url_fails = (\<lambda>u. False), stat_fails = False, mkdir_fails = False,
     tempfile_fails = False, chtimes_fails = False, rename_fails = False,
     remove_fails = False, close_fails = False, disk_room = None, now = 1500000000,
     rands = [''0001'', ''0002'']\<rparr>"

definition pkg :: Response where
  "pkg = \<lparr>StatusCode = 200,
     Header = [''Last-Modified'' \<mapsto> [HTTPDate 1445412480],
               ''Accept-Ranges'' \<mapsto> [Text ''bytes'']],
     ContentLength = 10, Body = \<lparr>chunks = [''01234'', ''56789''], fails = False\<rparr>\<rparr>"

definition notModified :: Response where
  "notModified = \<lparr>StatusCode = 304, Header = Map.empty, ContentLength = 0,
     Body = \<lparr>chunks = [], fails = False\<rparr>\<rparr>"

definition notFound :: Response where
  "notFound = \<lparr>StatusCode = 404, Header = [''Content-Type'' \<mapsto> [Text ''text/html'']],
     ContentLength = 9, Body = \<lparr>chunks = [''not found''], fails = False\<rparr>\<rparr>"

definition mirror :: CachingReverseProxy where
  "mirror = \<lparr>client = (\<lambda>q. if URL q = ''http://up/missing'' then Some notFound
                          else if ReqHeader q ''If-Modified-Since'' = None then Some pkg
                          else Some notModified),
     upstreamPrefix = ''http://up'', cacheDir = ''cache.d'', objectHandles = Map.empty\<rparr>"

definition request :: "string \<Rightarrow> string \<Rightarrow> Request" where
  "request m p = \<lparr>Method = m, URL = p, ReqHeader = Map.empty\<rparr>"




section \<open>Properties\<close>

subsection \<open>Tracking writer\<close>

lemma written_Write_mono: "written_tw w \<le> written_tw (snd (trackingWriter_Write w p))"
  by (simp add: trackingWriter_Write_def tw_update_def split: prod.splits)

lemma written_Write_le:
  "written_tw (snd (trackingWriter_Write w p)) \<le> written_tw w + int (length p)"
  by (simp add: trackingWriter_Write_def tw_update_def file_Write_def Let_def
      split: option.splits)

lemma size_Write: "size_tw (snd (trackingWriter_Write w p)) = size_tw w"
  by (simp add: trackingWriter_Write_def tw_update_def split: prod.splits)

lemma writes_lower: "v \<in> set (writes w ps) \<Longrightarrow> written_tw w \<le> written_tw v"
proof (induction ps arbitrary: w)
  case Nil
  then show ?case by simp
next
  case (Cons p ps)
  let ?w' = "snd (trackingWriter_Write w p)"
  from Cons.prems have "v = ?w' \<or> v \<in> set (writes ?w' ps)"
    by (simp add: Let_def)
  then show ?case
  proof
    assume "v = ?w'"
    then show ?thesis using written_Write_mono [of w p] by simp
  next
    assume "v \<in> set (writes ?w' ps)"
    then have "written_tw ?w' \<le> written_tw v" by (rule Cons.IH)
    then show ?thesis using written_Write_mono [of w p] by linarith
  qed
qed

lemma writes_sorted: "sorted (map written_tw (w # writes w ps))"
proof (induction ps arbitrary: w)
  case Nil
  then show ?case by simp
next
  case (Cons p ps)
  let ?w' = "snd (trackingWriter_Write w p)"
  have "sorted (map written_tw (?w' # writes ?w' ps))" by (rule Cons.IH)
  moreover have "\<forall>v \<in> set (?w' # writes ?w' ps). written_tw w \<le> written_tw v"
    using writes_lower [of _ ?w' ps] written_Write_mono [of w p] by fastforce
  ultimately show ?case by (simp add: Let_def)
qed

lemma writes_upper:
  "v \<in> set (writes w ps) \<Longrightarrow> written_tw v \<le> written_tw w + int (length (concat ps))"
proof (induction ps arbitrary: w)
  case Nil
  then show ?case by simp
next
  case (Cons p ps)
  let ?w' = "snd (trackingWriter_Write w p)"
  from Cons.prems have "v = ?w' \<or> v \<in> set (writes ?w' ps)"
    by (simp add: Let_def)
  then show ?case
  proof
    assume "v = ?w'"
    then show ?thesis using written_Write_le [of w p] by simp
  next
    assume "v \<in> set (writes ?w' ps)"
    then have "written_tw v \<le> written_tw ?w' + int (length (concat ps))" by (rule Cons.IH)
    then show ?thesis using written_Write_le [of w p] by simp
  qed
qed

lemma writes_size: "v \<in> set (writes w ps) \<Longrightarrow> size_tw v = size_tw w"
  by (induction ps arbitrary: w) (auto simp: Let_def size_Write)

text \<open>
  Claim C8, as amended. For every tracking writer made by \<^verbatim>\<open>newTrackingWriter\<close> and every
  sequence of \<^verbatim>\<open>Write\<close> calls, \<^verbatim>\<open>written\<close> never decreases from one call to the next and
  is never negative; and when the buffers of the calls hold at most \<^verbatim>\<open>size\<close> bytes in
  all, \<^verbatim>\<open>written \<le> size\<close> holds after every call. The writer itself never compares
  \<^verbatim>\<open>written\<close> with \<^verbatim>\<open>size\<close>.
\<close>

theorem written_invariant:
  "sorted (map written_tw (newTrackingWriter f sz # writes (newTrackingWriter f sz) ps))
   \<and> (\<forall>v \<in> set (newTrackingWriter f sz # writes (newTrackingWriter f sz) ps).
          0 \<le> written_tw v
          \<and> (int (length (concat ps)) \<le> sz \<longrightarrow> written_tw v \<le> size_tw v))"
proof -
  let ?w = "newTrackingWriter f sz"
  have w0: "written_tw ?w = 0" and s0: "size_tw ?w = sz"
    by (simp_all add: newTrackingWriter_def)
  have "0 \<le> written_tw v
        \<and> (int (length (concat ps)) \<le> sz \<longrightarrow> written_tw v \<le> size_tw v)"
    if "v \<in> set (?w # writes ?w ps)" for v
  proof (cases "v = ?w")
    case True
    then show ?thesis using w0 s0 by simp
  next
    case False
    with that have v: "v \<in> set (writes ?w ps)" by simp
    show ?thesis
      using writes_lower [OF v] writes_upper [OF v] writes_size [OF v] w0 s0 by simp
  qed
  then show ?thesis using writes_sorted [of ?w ps] by blast
qed

theorem written_invariant_witness:
  "int (length (concat [''01234'', ''56789''])) \<le> 10
   \<and> map written_tw (newTrackingWriter tempfile0 10
         # writes (newTrackingWriter tempfile0 10) [''01234'', ''56789'']) = [0, 5, 10]
   \<and> list_all (\<lambda>v. 0 \<le> written_tw v \<and> written_tw v \<le> size_tw v)
        (newTrackingWriter tempfile0 10
           # writes (newTrackingWriter tempfile0 10) [''01234'', ''56789''])"
  using written_invariant [of tempfile0 10 "[''01234'', ''56789'']"]
  by (simp add: list_all_iff newTrackingWriter_def tempfile0_def trackingWriter_Write_def
      tw_update_def file_Write_def)

text \<open>
  Claim C8 as stated fails: a writer of declared size 3 that is handed five bytes has
  \<^verbatim>\<open>written = 5\<close>, above its \<^verbatim>\<open>size\<close>.
\<close>

theorem written_exceeds_size:
  "\<not> written_tw (snd (trackingWriter_Write (newTrackingWriter tempfile0 3) ''hello''))
      \<le> size_tw (snd (trackingWriter_Write (newTrackingWriter tempfile0 3) ''hello''))"
  by (simp add: newTrackingWriter_def tempfile0_def trackingWriter_Write_def
      tw_update_def file_Write_def)

subsection \<open>Partial reader\<close>



text \<open>
  Claim C6, on the code. The writer closed \<^verbatim>\<open>done\<close> after 5 of 10 declared bytes; a
  reader that has consumed those 5 bytes reads again with a buffer of 4. The wait loop
  leaves on \<^verbatim>\<open>done\<close>, the buffer is cut to length \<open>0\<close>, and the wrapped read of an empty
  buffer returns \<open>(0, nil)\<close>: no bytes and no \<^verbatim>\<open>io.EOF\<close>, with the reader unchanged, so
  every later read does the same.
\<close>

theorem Read_at_final_readyPos:
  "partiallyDownloadedFile_Read 10 [Done 5] ''01234''
     (reader0\<lparr>wrapped := \<lparr>offset = 5, closed = False\<rparr>, readyPos := 5, pos := 5\<rparr>) 4
   = (Return [] None,
      reader0\<lparr>wrapped := \<lparr>offset = 5, closed = False\<rparr>, readyPos := 5, pos := 5\<rparr>, [])"
  by (simp add: partiallyDownloadedFile_Read_def reader0_def file_Read_def)

text \<open>
  The same for every short download: at the final \<^verbatim>\<open>readyPos\<close>, below \<^verbatim>\<open>size\<close>, a read
  returns no bytes and no error.
\<close>

lemma Read_short_never_EOF:
  assumes "pos r = w" "w < sz" "readyPos r \<le> w" "\<not> closed (wrapped r)" "0 \<le> w"
  shows "fst (partiallyDownloadedFile_Read sz (Done w # ns) c r n) = Return [] None"
  using assms
  by (simp add: partiallyDownloadedFile_Read_def file_Read_def file_Seek_def Let_def)

text \<open>
  Whatever the notices, bytes a read returns lie below \<^verbatim>\<open>readyPos\<close> and fit the buffer.
\<close>

lemma file_Read_length: "file_Read f c k = (bs, e, f') \<Longrightarrow> length bs \<le> k"
  by (auto simp add: file_Read_def Let_def split: if_splits)

lemma Read_within_readyPos:
  assumes rd: "partiallyDownloadedFile_Read sz ns c r n = (Return bs e, r', ns')"
    and ne: "bs \<noteq> []"
  shows "pos r' \<le> readyPos r'" and "length bs \<le> n"
proof -
  from rd ne have nz: "\<not> sz \<le> pos r"
    by (auto simp add: partiallyDownloadedFile_Read_def)
  with rd obtain ready ns1 where aw: "await (pos r) (readyPos r) ns = Some (ready, ns1)"
    by (cases "await (pos r) (readyPos r) ns") (auto simp add: partiallyDownloadedFile_Read_def)
  define r2 where "r2 = (if seekBeforeRead r
      then r\<lparr>readyPos := ready, pos := pos r,
               wrapped := (wrapped r)\<lparr>offset := pos r\<rparr>, seekBeforeRead := False\<rparr>
      else r\<lparr>readyPos := ready\<rparr>)"
  define k where "k = (if ready - pos r < int n then ready - pos r else int n)"
  have r2: "readyPos r2 = ready" "pos r2 = pos r"
    by (simp_all add: r2_def)
  from rd ne nz aw have step: "0 \<le> k \<and> (\<exists>f. file_Read (wrapped r2) c (nat k) = (bs, e, f)
      \<and> r' = r2\<lparr>wrapped := f, pos := pos r2 + int (length bs)\<rparr>)"
    unfolding partiallyDownloadedFile_Read_def r2_def k_def
    by (simp add: file_Seek_def Let_def split: if_splits prod.splits)
  then obtain f where f: "file_Read (wrapped r2) c (nat k) = (bs, e, f)"
    and r': "r' = r2\<lparr>wrapped := f, pos := pos r2 + int (length bs)\<rparr>" and k0: "0 \<le> k"
    by blast
  from file_Read_length [OF f] k0 have "int (length bs) \<le> k" by simp
  then show "pos r' \<le> readyPos r'" and "length bs \<le> n"
    using r2 by (simp_all add: r' k_def split: if_splits)
qed

text \<open>
  Claim C10, on the code. After \<^verbatim>\<open>Seek(8, io.SeekStart)\<close> on a download of declared size
  10 whose writer closes \<^verbatim>\<open>done\<close> at \<^verbatim>\<open>written = 5\<close>, the wait loop leaves with
  \<^verbatim>\<open>readyPos - pos = -3\<close> and \<^verbatim>\<open>p[:readyPos-pos]\<close> panics.
\<close>

theorem Read_after_Seek_past_written:
  "fst (partiallyDownloadedFile_Read 10 [Done 5] ''01234''
          (snd (partiallyDownloadedFile_Seek 10 reader0 8 SeekStart)) 4) = Panic"
  by (simp add: partiallyDownloadedFile_Read_def partiallyDownloadedFile_Seek_def reader0_def
      file_Seek_def SeekStart_def)

text \<open>
  The same for every read at a position past the final \<^verbatim>\<open>written\<close> and below \<^verbatim>\<open>size\<close>.
\<close>

lemma Read_past_written_panics:
  assumes "w < pos r" and "pos r < sz" and "readyPos r \<le> pos r" and "\<not> closed (wrapped r)"
    and "0 \<le> pos r"
  shows "fst (partiallyDownloadedFile_Read sz (Done w # ns) c r n) = Panic"
  using assms
  by (simp add: partiallyDownloadedFile_Read_def file_Seek_def Let_def)

subsection \<open>The handler: the request sent upstream\<close>

lemma upstream_asked: "asked (upstream env fs p w r clean cp cf t uq) = Some uq"
  by (simp add: upstream_def split: option.splits prod.splits)

lemma ServeHTTP_asked:
  assumes "asked (ServeHTTP env fs p w r) = Some q"
  shows "ServeHTTP env fs p w r =
           upstream env fs p w r (path_Clean (''/'' @ URL r))
             (path_Join [cacheDir p, path_Clean (''/'' @ URL r)])
             (case os_Open fs (path_Join [cacheDir p, path_Clean (''/'' @ URL r)]) of
                Inr f \<Rightarrow> Some f | Inl e \<Rightarrow> None)
             (case os_Open fs (path_Join [cacheDir p, path_Clean (''/'' @ URL r)]) of
                Inr f \<Rightarrow> mtime f | Inl e \<Rightarrow> zeroTime)
             q"
    and "Method q = Method r"
    and "URL q = upstreamPrefix p @ path_Clean (''/'' @ URL r)"
    and "ReqHeader q =
           (case os_Open fs (path_Join [cacheDir p, path_Clean (''/'' @ URL r)]) of
              Inr f \<Rightarrow> [''If-Modified-Since'' \<mapsto> [time_Format (mtime f)]]
            | Inl e \<Rightarrow> Map.empty)"
  using assms
  by (auto simp add: ServeHTTP_def Let_def upstream_asked Header_Set_def
      split: if_splits sum.splits)

lemma body_foldl_Write:
  "wroteHeader w \<Longrightarrow>
     foldl Write w cs = w\<lparr>body := body w @ concat cs\<rparr>"
  by (induction cs arbitrary: w) (simp_all add: Write_def)

lemma concat_filter_nonempty: "concat (filter (\<lambda>c. c \<noteq> []) cs) = concat cs"
  by (induction cs) simp_all

lemma pass_through_fresh:
  "pass_through newResponseWriter r resp =
     (\<lparr>hdr = forwarded resp, wroteHeader = True, status = StatusCode resp,
       sent = forwarded resp,
       body = (if Method r = ''GET'' then concat (chunks (Body resp)) else [])\<rparr>,
      Method r = ''GET'')"
  by (simp add: pass_through_def forwarded_def newResponseWriter_def Header_set_w_def
      WriteHeader_def body_foldl_Write concat_filter_nonempty Let_def
      split: option.splits)

lemma forwarded_Content_Length:
  "forwarded resp ''Content-Length''
     = (if ContentLength resp \<noteq> - 1 then Some [Decimal (ContentLength resp)] else None)"
  by (simp add: forwarded_def Header_Set_def Let_def split: option.splits)

lemma forwarded_Last_Modified:
  "forwarded resp ''Last-Modified''
     = (if \<not> modTimeErr resp then Some [Header_Get (Header resp) ''Last-Modified''] else None)"
  by (simp add: forwarded_def Header_Set_def Let_def split: option.splits)

lemma forwarded_Content_Type: "forwarded resp ''Content-Type'' = Header resp ''Content-Type''"
  by (simp add: forwarded_def Header_Set_def Let_def split: option.splits)

lemma forwarded_Accept_Ranges:
  "forwarded resp ''Accept-Ranges''
     = (if hasAcceptRangeBytes resp then Some [Text ''bytes''] else None)"
  by (simp add: forwarded_def Header_Set_def Let_def split: option.splits)

lemma dom_forwarded:
  "dom (forwarded resp)
     \<subseteq> {''Content-Length'', ''Last-Modified'', ''Content-Type'', ''Accept-Ranges''}"
  unfolding forwarded_def Header_Set_def Let_def
  by (auto split: option.splits if_splits)



text \<open>
  Claim C2, on the code. For a request whose method is neither \<^verbatim>\<open>GET\<close> nor \<^verbatim>\<open>HEAD\<close>, here
  \<^verbatim>\<open>POST /x\<close>, the handler first prints the body, which sends status 200, and only then
  calls \<^verbatim>\<open>WriteHeader(405)\<close>, which is superfluous: the response has status 200, not
  405. The body is \<^verbatim>\<open>Only HEAD or GET allowed\<close> with a newline; no file is opened and no
  request is sent upstream.
\<close>

theorem POST_is_answered_200: 
  "(let oc = ServeHTTP quiet Map.empty mirror newResponseWriter (request ''POST'' ''/x'')
    in replied (reply oc) = Some (200, ''Only HEAD or GET allowed'' @ [CHR 0x0A])
       \<and> probe oc = None \<and> asked oc = None)"
  by code_simp

text \<open>The same for every such request and every state of the proxy.\<close>

lemma ServeHTTP_method_gate:
  assumes "Method r \<noteq> ''HEAD''" and "Method r \<noteq> ''GET''"
  shows "ServeHTTP env fs p newResponseWriter r =
           \<lparr>reply = Direct \<lparr>hdr = Map.empty, wroteHeader = True, status = StatusOK,
                             sent = Map.empty,
                             body = ''Only HEAD or GET allowed'' @ [CHR 0x0A]\<rparr>,
            probe = None, asked = None, bodyClosed = False, started = None,
            handles = objectHandles p, files = fs\<rparr>"
  using assms
  by (simp add: ServeHTTP_def Fprintln_def Write_def WriteHeader_def newResponseWriter_def
      StatusOK_def)

subsection \<open>The handler: revalidation\<close>





subsection \<open>The handler: pass-through\<close>

text \<open>
  Claim C4, as amended. For every upstream response that is neither a 304 nor cachable:
  the client is sent exactly the headers \<^verbatim>\<open>Content-Length\<close> (when the length is known),
  \<^verbatim>\<open>Last-Modified\<close> (when it parses), \<^verbatim>\<open>Content-Type\<close> (when upstream gave one) and
  \<^verbatim>\<open>Accept-Ranges: bytes\<close> (when upstream advertised it), and the upstream status code.
  For \<^verbatim>\<open>GET\<close> the body is copied and the upstream body is closed; for \<^verbatim>\<open>HEAD\<close> the body
  is neither copied nor closed.
\<close>

theorem pass_through_response:
  assumes "asked (ServeHTTP env fs p newResponseWriter r) = Some q"
    and "client p q = Some resp"
    and "StatusCode resp \<noteq> StatusNotModified"
    and "\<not> cachable r resp"
  shows "\<exists>w. reply (ServeHTTP env fs p newResponseWriter r) = Direct w
           \<and> dom (sent w)
               \<subseteq> {''Content-Length'', ''Last-Modified'', ''Content-Type'', ''Accept-Ranges''}
           \<and> sent w ''Content-Length''
               = (if ContentLength resp \<noteq> - 1 then Some [Decimal (ContentLength resp)]
                  else None)
           \<and> sent w ''Last-Modified''
               = (if \<not> modTimeErr resp then Some [Header_Get (Header resp) ''Last-Modified'']
                  else None)
           \<and> sent w ''Content-Type'' = Header resp ''Content-Type''
           \<and> sent w ''Accept-Ranges''
               = (if hasAcceptRangeBytes resp then Some [Text ''bytes''] else None)
           \<and> status w = StatusCode resp
           \<and> body w = (if Method r = ''GET'' then concat (chunks (Body resp)) else [])
           \<and> bodyClosed (ServeHTTP env fs p newResponseWriter r) = (Method r = ''GET'')"
proof -
  let ?w = "\<lparr>hdr = forwarded resp, wroteHeader = True, status = StatusCode resp,
             sent = forwarded resp,
             body = (if Method r = ''GET'' then concat (chunks (Body resp)) else [])\<rparr>"
  have run: "reply (ServeHTTP env fs p newResponseWriter r) = Direct ?w"
    "bodyClosed (ServeHTTP env fs p newResponseWriter r) = (Method r = ''GET'')"
    using assms(2-4)
    by (simp_all add: ServeHTTP_asked(1) [OF assms(1)] upstream_def pass_through_fresh)
  show ?thesis
  proof (intro exI [of _ ?w] conjI)
    show "reply (ServeHTTP env fs p newResponseWriter r) = Direct ?w"
      by (rule run(1))
    show "dom (sent ?w)
            \<subseteq> {''Content-Length'', ''Last-Modified'', ''Content-Type'', ''Accept-Ranges''}"
      using dom_forwarded [of resp] by simp
    show "sent ?w ''Content-Length''
            = (if ContentLength resp \<noteq> - 1 then Some [Decimal (ContentLength resp)]
               else None)"
      using forwarded_Content_Length [of resp] by simp
    show "sent ?w ''Last-Modified''
            = (if \<not> modTimeErr resp then Some [Header_Get (Header resp) ''Last-Modified'']
               else None)"
      using forwarded_Last_Modified [of resp] by simp
    show "sent ?w ''Content-Type'' = Header resp ''Content-Type''"
      using forwarded_Content_Type [of resp] by simp
    show "sent ?w ''Accept-Ranges''
            = (if hasAcceptRangeBytes resp then Some [Text ''bytes''] else None)"
      using forwarded_Accept_Ranges [of resp] by simp
    show "status ?w = StatusCode resp"
      by simp
    show "body ?w = (if Method r = ''GET'' then concat (chunks (Body resp)) else [])"
      by simp
    show "bodyClosed (ServeHTTP env fs p newResponseWriter r) = (Method r = ''GET'')"
      by (rule run(2))
  qed
qed


theorem pass_through_response_witness:
  "asked (ServeHTTP quiet Map.empty mirror newResponseWriter (request ''GET'' ''/missing''))
     = Some \<lparr>Method = ''GET'', URL = ''http://up/missing'', ReqHeader = Map.empty\<rparr>
   \<and> client mirror \<lparr>Method = ''GET'', URL = ''http://up/missing'', ReqHeader = Map.empty\<rparr>
     = Some notFound
   \<and> StatusCode notFound \<noteq> StatusNotModified
   \<and> \<not> cachable (request ''GET'' ''/missing'') notFound
   \<and> (\<exists>w. reply (ServeHTTP quiet Map.empty mirror newResponseWriter
                     (request ''GET'' ''/missing'')) = Direct w
          \<and> dom (sent w) = {''Content-Length'', ''Content-Type''}
          \<and> sent w ''Content-Length'' = Some [Decimal 9]
          \<and> sent w ''Content-Type'' = Some [Text ''text/html'']
          \<and> status w = 404
          \<and> body w = ''not found'')
   \<and> bodyClosed (ServeHTTP quiet Map.empty mirror newResponseWriter
                   (request ''GET'' ''/missing''))"
proof -
  let ?q = "\<lparr>Method = ''GET'', URL = ''http://up/missing'', ReqHeader = Map.empty\<rparr>"
  let ?oc = "ServeHTTP quiet Map.empty mirror newResponseWriter (request ''GET'' ''/missing'')"
  have paths: "path_Clean ''//missing'' = ''/missing''"
    "path_Join [''cache.d'', ''/missing''] = ''cache.d/missing''"
    by code_simp+
  have a: "asked ?oc = Some ?q"
    by (simp add: ServeHTTP_def upstream_asked request_def quiet_def mirror_def paths
        os_Open_def Let_def)
  have b: "client mirror ?q = Some notFound"
    by (simp add: mirror_def)
  have c: "StatusCode notFound \<noteq> StatusNotModified"
    by (simp add: notFound_def StatusNotModified_def)
  have d: "\<not> cachable (request ''GET'' ''/missing'') notFound"
    by (simp add: cachable_def notFound_def StatusOK_def)
  have e: "modTimeErr notFound" "\<not> hasAcceptRangeBytes notFound"
    "ContentLength notFound = 9" "StatusCode notFound = 404"
    "Header notFound ''Content-Type'' = Some [Text ''text/html'']"
    "concat (chunks (Body notFound)) = ''not found''"
    "Method (request ''GET'' ''/missing'') = ''GET''"
    by (simp_all add: modTimeErr_def hasAcceptRangeBytes_def notFound_def Header_Get_def
        time_Parse_def request_def)
  from pass_through_response [OF a b c d] obtain w where
    w: "reply ?oc = Direct w"
      "dom (sent w)
         \<subseteq> {''Content-Length'', ''Last-Modified'', ''Content-Type'', ''Accept-Ranges''}"
      "sent w ''Content-Length'' = Some [Decimal 9]"
      "sent w ''Last-Modified'' = None"
      "sent w ''Content-Type'' = Some [Text ''text/html'']"
      "sent w ''Accept-Ranges'' = None"
      "status w = 404"
      "body w = ''not found''"
    and cl: "bodyClosed ?oc"
    by (auto simp add: e)
  have "dom (sent w) = {''Content-Length'', ''Content-Type''}"
  proof
    show "dom (sent w) \<subseteq> {''Content-Length'', ''Content-Type''}"
    proof
      fix k
      assume k: "k \<in> dom (sent w)"
      with w(2) have "k = ''Content-Length'' \<or> k = ''Last-Modified'' \<or> k = ''Content-Type''
          \<or> k = ''Accept-Ranges''"
        by blast
      with k w(4,6) show "k \<in> {''Content-Length'', ''Content-Type''}"
        by (metis domIff insertI1 insertI2)
    qed
    show "{''Content-Length'', ''Content-Type''} \<subseteq> dom (sent w)"
      using w(3,5) by (simp add: domIff)
  qed
  with a b c d w cl show ?thesis by blast
qed

text \<open>
  Claim C4 as stated fails for \<^verbatim>\<open>HEAD\<close>: the answer to \<^verbatim>\<open>HEAD /missing\<close> is passed through
  (status 404, two headers, no body) and the upstream body is left open.
\<close>

theorem HEAD_pass_through_leaves_body_open:
  "reply (ServeHTTP quiet Map.empty mirror newResponseWriter (request ''HEAD'' ''/missing''))
     = Direct \<lparr>hdr = [''Content-Length'' \<mapsto> [Decimal 9],
                         ''Content-Type'' \<mapsto> [Text ''text/html'']],
               wroteHeader = True, status = 404,
               sent = [''Content-Length'' \<mapsto> [Decimal 9],
                          ''Content-Type'' \<mapsto> [Text ''text/html'']],
               body = []\<rparr>
   \<and> \<not> bodyClosed (ServeHTTP quiet Map.empty mirror newResponseWriter
                      (request ''HEAD'' ''/missing''))"
proof -
  have paths: "path_Clean ''//missing'' = ''/missing''"
    "path_Join [''cache.d'', ''/missing''] = ''cache.d/missing''"
    by code_simp+
  show ?thesis
    by (simp add: ServeHTTP_def upstream_def pass_through_def cachable_def request_def
        quiet_def mirror_def notFound_def paths os_Open_def newResponseWriter_def
        Header_set_w_def Header_Set_def Header_Get_def WriteHeader_def modTimeErr_def
        hasAcceptRangeBytes_def time_Parse_def StatusNotModified_def StatusOK_def Let_def)
qed

subsection \<open>Object handles and the downloader\<close>

lemma first_request_starts_download:
  "(let oc = ServeHTTP quiet Map.empty mirror newResponseWriter (request ''GET'' ''/x/y.pkg'')
    in started oc
         = Some \<lparr>d_body = \<lparr>chunks = [''01234'', ''56789''], fails = False\<rparr>,
                  d_cleanPath = ''/x/y.pkg'', d_tempPath = ''cache.d/x/y.pkg.part.0001'',
                  d_writer = newTrackingWriter tempfile0 10, d_modTime = 1445412480,
                  d_cachePath = ''cache.d/x/y.pkg''\<rparr>
     \<and> files oc ''cache.d/x/y.pkg.part.0001''
         = Some \<lparr>content = [], mtime = 1500000000, readable = True\<rparr>
     \<and> \<not> bodyClosed oc)"
  by code_simp

text \<open>
  A second request for the package, handled before the downloader has run: it sends its
  own upstream request, whose body \<^verbatim>\<open>Get\<close> closes unread, starts no download, and gets a
  partial reader on the writer of the first.
\<close>

lemma second_request_joins_download:
  "(let oc1 = ServeHTTP quiet Map.empty mirror newResponseWriter (request ''GET'' ''/x/y.pkg'');
        oc2 = ServeHTTP quiet (files oc1) (mirror\<lparr>objectHandles := handles oc1\<rparr>)
                newResponseWriter (request ''GET'' ''/x/y.pkg'')
    in asked oc1 \<noteq> None \<and> asked oc2 \<noteq> None
     \<and> started oc1 \<noteq> None \<and> started oc2 = None
     \<and> \<not> bodyClosed oc1 \<and> bodyClosed oc2
     \<and> handles oc2 ''/x/y.pkg'' = handles oc1 ''/x/y.pkg''
     \<and> (case reply oc2 of
          ServeContent w name t rd \<Rightarrow>
            rd = Partial reader0 (Some (newTrackingWriter tempfile0 10))
        | _ \<Rightarrow> False))"
  by code_simp

text \<open>
  Claim C5, on the code. \<^verbatim>\<open>os.MkdirAll\<close> fails during the first request for
  \<^verbatim>\<open>/x/y.pkg\<close>: the client is answered 500 and no download starts, but the handle stays
  in the registry with its latch used up and an empty \<^verbatim>\<open>tempPath\<close>. A second request for
  the same path, with nothing failing any more, finds that handle, skips the
  initialization, is answered 500 again and starts no download either.
\<close>

theorem mkdir_failure_keeps_handle:
  "(let oc1 = ServeHTTP (quiet\<lparr>mkdir_fails := True\<rparr>) Map.empty mirror newResponseWriter
                (request ''GET'' ''/x/y.pkg'');
        oc2 = ServeHTTP quiet (files oc1) (mirror\<lparr>objectHandles := handles oc1\<rparr>)
                newResponseWriter (request ''GET'' ''/x/y.pkg'')
    in replied (reply oc1) = Some (500, ''Internal Server Error'' @ [CHR 0x0A])
     \<and> started oc1 = None
     \<and> handles oc1 ''/x/y.pkg''
         = Some \<lparr>cleanPath = ''/x/y.pkg'', once = True, tempPath = [], trackingWriter = None\<rparr>
     \<and> replied (reply oc2) = Some (500, ''Internal Server Error'' @ [CHR 0x0A])
     \<and> started oc2 = None
     \<and> files oc2 ''cache.d/x/y.pkg.part.0001'' = None
     \<and> handles oc2 ''/x/y.pkg''
         = Some \<lparr>cleanPath = ''/x/y.pkg'', once = True, tempPath = [], trackingWriter = None\<rparr>)"
  by code_simp

text \<open>
  When an older cache file is in place and upstream answers 200, the failed
  initialization does not even give a 500: \<^verbatim>\<open>Get\<close> falls back to the old file and the
  handler serves it, under the new modification time.
\<close>

lemma mkdir_failure_serves_stale_file:
  "(let oc = ServeHTTP (quiet\<lparr>mkdir_fails := True\<rparr>)
               [''cache.d/x/y.pkg'' \<mapsto> \<lparr>content = ''old'', mtime = 1, readable = True\<rparr>]
               (mirror\<lparr>client := (\<lambda>q. Some pkg)\<rparr>) newResponseWriter
               (request ''GET'' ''/x/y.pkg'')
    in (case reply oc of
          ServeContent w name t rd \<Rightarrow> name = ''y.pkg'' \<and> t = 1445412480 \<and> rd = OSFile ''old''
        | _ \<Rightarrow> False)
     \<and> handles oc ''/x/y.pkg''
         = Some \<lparr>cleanPath = ''/x/y.pkg'', once = True, tempPath = [], trackingWriter = None\<rparr>)"
  by code_simp






end
